theory Spec2Isabelle
  imports Main "HOL-Library.AList"
begin

section \<open>Python errors and numpy arrays\<close>

text \<open>
  The exceptions the modelled code of \<^verbatim>\<open>budgetIO.py\<close> and \<^verbatim>\<open>turbineArray.py\<close>
  can raise. A function that may raise returns \<open>py_error + 'a\<close>, with \<open>Inl\<close> the
  exception.
\<close>

datatype py_error =
    AttributeError
  | IndexError
  | KeyError
  | ValueError
  | FileNotFoundError
  | ZeroDivisionError
  | NameError
  | TypeError

text \<open>
  A numpy array is a data buffer read through a shape and one stride per axis (counted
  in elements): the element at index \<open>[i\<^sub>0, i\<^sub>1, ...]\<close> is the buffer's element at
  offset \<open>i\<^sub>0 * stride\<^sub>0 + i\<^sub>1 * stride\<^sub>1 + ...\<close>. The element type \<open>'a\<close> stands for
  \<^verbatim>\<open>float64\<close>.
\<close>

record 'a ndarray =
  shape :: "nat list"
  strides :: "nat list"
  buffer :: "'a list"

text \<open>
  Strides of a Fortran-contiguous array: the first axis has stride 1 and each further
  axis the product of the extents before it.
\<close>

fun f_strides :: "nat \<Rightarrow> nat list \<Rightarrow> nat list" where
  "f_strides acc [] = []"
| "f_strides acc (d # ds) = acc # f_strides (acc * d) ds"

text \<open>
  \<^verbatim>\<open>temp.reshape(shp, order='F')\<close> on the flat array that \<^verbatim>\<open>np.fromfile\<close> returns:
  numpy raises ValueError when the sizes differ, and otherwise returns a view of the
  same buffer with Fortran strides.
\<close>

definition reshape_F :: "'a list \<Rightarrow> nat list \<Rightarrow> py_error + 'a ndarray" where
  "reshape_F temp shp =
     (if length temp \<noteq> prod_list shp then Inl ValueError
      else Inr \<lparr>shape = shp, strides = f_strides 1 shp, buffer = temp\<rparr>)"

fun offset :: "nat list \<Rightarrow> nat list \<Rightarrow> nat" where
  "offset (i # idx) (s # ss) = i * s + offset idx ss"
| "offset _ _ = 0"

text \<open>
  \<^verbatim>\<open>arr[i, j, ...]\<close> with one non-negative integer per axis; numpy raises IndexError
  for an index outside the axis.
\<close>

definition getitem :: "'a ndarray \<Rightarrow> nat list \<Rightarrow> py_error + 'a" where
  "getitem arr idx =
     (if length idx = length (shape arr) \<and> list_all2 (<) idx (shape arr)
      then Inr (buffer arr ! offset idx (strides arr))
      else Inl IndexError)"

section \<open>The key registry\<close>

text \<open>
  \<^verbatim>\<open>BudgetIO.key = budgetkey.get_key()\<close> pairs each term name with its
  (budget, term) numbers; the module \<^verbatim>\<open>budgetkey\<close> is not part of the sources, so
  the table is a parameter \<open>key\<close> of every function that reads it, an association list
  of names and pairs. \<^verbatim>\<open>key[name]\<close> is \<open>key_lookup\<close>, \<^verbatim>\<open>key.inverse[tup][0]\<close> is
  \<open>key_inverse\<close>; both raise KeyError for an entry that is not in the table.
\<close>

type_synonym term_key = "nat \<times> nat"
type_synonym key_table = "(string \<times> term_key) list"

definition key_lookup :: "key_table \<Rightarrow> string \<Rightarrow> py_error + term_key" where
  "key_lookup key name = (case map_of key name of None \<Rightarrow> Inl KeyError | Some tup \<Rightarrow> Inr tup)"




text \<open>Running a fallible function over a list stops at the first exception.\<close>

definition bind_err :: "py_error + 'a \<Rightarrow> ('a \<Rightarrow> py_error + 'b) \<Rightarrow> py_error + 'b" where
  "bind_err m f = (case m of Inl e \<Rightarrow> Inl e | Inr x \<Rightarrow> f x)"

fun mapM :: "('a \<Rightarrow> py_error + 'b) \<Rightarrow> 'a list \<Rightarrow> py_error + 'b list" where
  "mapM f [] = Inr []"
| "mapM f (x # xs) =
     (case f x of Inl e \<Rightarrow> Inl e
      | Inr y \<Rightarrow> (case mapM f xs of Inl e \<Rightarrow> Inl e | Inr ys \<Rightarrow> Inr (y # ys)))"

section \<open>The session\<close>

text \<open>
  A budget dump of the run directory, named
  \<^verbatim>\<open>Run<runid>_budget<b>_term<tt>_t<tidx>_n<n>.s3D\<close>: the numbers its name carries
  (what the regular expressions of the source capture) and its contents, the flat
  stream of values \<^verbatim>\<open>np.fromfile\<close> reads.
\<close>

record 'a budget_file =
  f_runid :: nat
  f_budget :: nat
  f_term :: nat
  f_tidx :: int
  f_n :: nat
  f_data :: "'a list"

text \<open>What the session prints or warns, in order.\<close>

datatype report =
    TidxSubstituted int int
  | NoKeysReturned
  | MissingTerms "string list"
  | InvalidTerms "string list" "term_key list"
  | BadShortcut
  | NoBudgetFiles
  | WakeAlreadyComputed
  | FileExistsOverwriting
  | ExistingFilesFound
  | NoBudgetsAssociated

text \<open>
  The fields of a \<^verbatim>\<open>BudgetIO\<close> object that the modelled methods read or write.
  The warnings of \<^verbatim>\<open>existing_budgets\<close> and \<^verbatim>\<open>existing_terms\<close> are not recorded.
  \<open>dir_files\<close> is the listing of \<^verbatim>\<open>dir_name\<close> (the budget dumps of all runs found
  there), \<open>budget\<close> the dict \<^verbatim>\<open>self.budget\<close> in insertion order (assigning to a
  key is \<open>AList.update\<close>: replace in place, or append), \<open>archive\<close> the names and arrays of the \<^verbatim>\<open>_budgets.npz\<close> or
  \<^verbatim>\<open>_budgets.mat\<close> container, \<open>reports\<close> what was printed or warned so far.
\<close>

record 'a session =
  dir_name :: string
  filename :: string
  associate_padeops :: bool
  associate_npz :: bool
  associate_mat :: bool
  associate_budgets :: bool
  runid :: nat
  nx :: nat
  ny :: nat
  nz :: nat
  xLine :: "'a list"
  yLine :: "'a list"
  zLine :: "'a list"
  origin :: "'a \<times> 'a \<times> 'a"
  normalized_xyz :: bool
  budget :: "(string \<times> 'a ndarray) list"
  budget_tidx :: "int option"
  budget_n :: "nat option"
  all_budget_tidx :: "int list"
  dir_files :: "'a budget_file list"
  archive :: "(string \<times> 'a ndarray) list"
  reports :: "report list"


section \<open>The directory indexer\<close>

text \<open>
  \<^verbatim>\<open>unique_tidx\<close> with the search string of \<^verbatim>\<open>unique_budget_tidx\<close>: the time indices
  captured from the budget dumps of the active run, sorted; FileNotFoundError when no
  name matches; \<^verbatim>\<open>None\<close> when the session does not read solver output.
\<close>

definition captured_tidx :: "'a session \<Rightarrow> int list" where
  "captured_tidx s = sort (map f_tidx (filter (\<lambda>f. f_runid f = runid s) (dir_files s)))"

definition unique_budget_tidx_all :: "'a session \<Rightarrow> py_error + int list option" where
  "unique_budget_tidx_all s =
     (if \<not> associate_padeops s then Inr None
      else if captured_tidx s = [] then Inl FileNotFoundError
      else Inr (Some (remdups_adj (captured_tidx s))))"


text \<open>\<^verbatim>\<open>list(np.unique(xs))\<close>: the distinct elements in ascending order.\<close>

definition np_unique :: "'b::linorder list \<Rightarrow> 'b list" where
  "np_unique xs = remdups_adj (sort xs)"

text \<open>
  \<^verbatim>\<open>existing_budgets\<close>: \<open>budget_list\<close> is the list it builds first, the budget
  numbers of the dumps of the active run, or of the names stored in the archive;
  budget 5 is appended when budget 0 is there.
\<close>

datatype 'b unbound = Unbound | Bound 'b

definition budget_list :: "key_table \<Rightarrow> 'a session \<Rightarrow> py_error + nat list" where
  "budget_list key s =
     (if associate_padeops s
      then Inr (map f_budget (filter (\<lambda>f. f_runid f = runid s) (dir_files s)))
      else (let t_list = (if associate_mat s \<or> associate_npz s
                          then Bound (map fst (archive s)) else Unbound)
            in case t_list of
                 Unbound \<Rightarrow> Inl NameError
               | Bound ts \<Rightarrow> mapM (\<lambda>t. bind_err (key_lookup key t) (\<lambda>tup. Inr (fst tup))) ts))"

definition existing_budgets :: "key_table \<Rightarrow> 'a session \<Rightarrow> py_error + nat list" where
  "existing_budgets key s =
     bind_err (budget_list key s)
       (\<lambda>bl. Inr (np_unique (if 0 \<in> set bl then bl @ [5] else bl)))"





section \<open>Term resolution\<close>

text \<open>
  What a caller passes as \<^verbatim>\<open>budget_terms\<close>: one of the strings, or a list (or dict,
  read through its keys) of names and (budget, term) tuples.
\<close>

datatype term_req = Name string | Tup term_key


definition req_names :: "term_req list \<Rightarrow> string list" where
  "req_names ts = concat (map (\<lambda>t. case t of Name n \<Rightarrow> [n] | Tup _ \<Rightarrow> []) ts)"

definition req_tups :: "term_req list \<Rightarrow> term_key list" where
  "req_tups ts = concat (map (\<lambda>t. case t of Name _ \<Rightarrow> [] | Tup p \<Rightarrow> [p]) ts)"


text \<open>
  The three-way partition. A name is never a key of the inverse table and a tuple never
  a key of the table itself or an existing name, so each comprehension of the source
  reads only the names or only the tuples of the request. The set \<^verbatim>\<open>valid_terms\<close> is
  kept without repetition in order of first appearance, and so is the returned dict.
\<close>

record parsed =
  valid_terms :: "string list"
  missing_terms :: "string list"
  invalid_names :: "string list"
  invalid_tups :: "term_key list"





section \<open>Reading budgets\<close>


text \<open>
  \<^verbatim>\<open>np.argmin\<close> returns the first index of the smallest element, and raises
  ValueError on an empty array.
\<close>

definition np_argmin :: "int list \<Rightarrow> nat" where
  "np_argmin xs = length (takeWhile (\<lambda>x. x \<noteq> min_list xs) xs)"

definition closest_tidx :: "int list \<Rightarrow> int \<Rightarrow> py_error + int" where
  "closest_tidx tidx_arr tidx =
     (if tidx_arr = [] then Inl ValueError
      else Inr (tidx_arr ! np_argmin (map (\<lambda>a. \<bar>a - tidx\<bar>) tidx_arr)))"

text \<open>
  The time index \<^verbatim>\<open>_read_budgets_padeops\<close> loads at, with the session after the
  message it prints when it substitutes the nearest one.
\<close>

definition resolve_tidx :: "'a session \<Rightarrow> int option \<Rightarrow> py_error + (int option \<times> 'a session)" where
  "resolve_tidx s tidx =
     (case tidx of
        None \<Rightarrow> Inr (budget_tidx s, s)
      | Some t \<Rightarrow>
          if t \<in> set (all_budget_tidx s) then Inr (Some t, s)
          else bind_err (closest_tidx (all_budget_tidx s) t)
                 (\<lambda>c. Inr (Some c, s\<lparr>reports := reports s @ [TidxSubstituted t c]\<rparr>)))"

text \<open>
  \<^verbatim>\<open>glob.glob(searchstr)[0]\<close>: the first dump of the directory whose name carries
  the run, budget, term and time index; IndexError when there is none.
\<close>

definition glob_first :: "'a session \<Rightarrow> term_key \<Rightarrow> int \<Rightarrow> py_error + 'a budget_file" where
  "glob_first s tup tidx =
     (case filter (\<lambda>f. f_runid f = runid s \<and> f_budget f = fst tup \<and> f_term f = snd tup
                        \<and> f_tidx f = tidx) (dir_files s) of
        [] \<Rightarrow> Inl IndexError
      | f # _ \<Rightarrow> Inr f)"

text \<open>One pass of the loop over \<^verbatim>\<open>key_subset\<close>.\<close>

definition load_term :: "key_table \<Rightarrow> int option \<Rightarrow> 'a session \<Rightarrow> string \<Rightarrow> py_error + 'a session" where
  "load_term key tidx s name =
     bind_err (key_lookup key name) (\<lambda>tup.
       case tidx of
         None \<Rightarrow> Inl TypeError
       | Some t \<Rightarrow>
           bind_err (glob_first s tup t) (\<lambda>u_fname.
             let s1 = s\<lparr>budget_n := Some (f_n u_fname), budget_tidx := Some t\<rparr>
             in bind_err (reshape_F (f_data u_fname) [nx s1, ny s1, nz s1]) (\<lambda>arr.
                  Inr (s1\<lparr>budget := AList.update name arr (budget s1)\<rparr>))))"

fun load_terms :: "key_table \<Rightarrow> int option \<Rightarrow> 'a session \<Rightarrow> string list \<Rightarrow> py_error + 'a session" where
  "load_terms key tidx s [] = Inr s"
| "load_terms key tidx s (name # names) =
     bind_err (load_term key tidx s name) (\<lambda>s1. load_terms key tidx s1 names)"

definition read_budgets_padeops ::
  "key_table \<Rightarrow> 'a session \<Rightarrow> (string \<times> term_key) list \<Rightarrow> int option \<Rightarrow> py_error + 'a session" where
  "read_budgets_padeops key s key_subset tidx =
     bind_err (resolve_tidx s tidx) (\<lambda>(t, s1). load_terms key t s1 (map fst key_subset))"





section \<open>The wake calculator\<close>












section \<open>Writing archives\<close>












section \<open>The turbine array\<close>

text \<open>
  Modelled from the spec: the class \<^verbatim>\<open>Turbine\<close> of \<^verbatim>\<open>padeopsIO.turbine\<close>, which is not
  part of the sources. The spec describes a turbine as identified by a 1-based index
  in an ordered sequence and exposing a sort key; \<^verbatim>\<open>TurbineArray\<close> builds it as
  \<^verbatim>\<open>Turbine(turb_nml, n=i+1, sort=sort_by)\<close> and reads its \<^verbatim>\<open>input_nml\<close>. Two turbines
  compare by the value of the field named by their sort key, which the parameter
  \<open>sort_value\<close> reads from the namelist (\<open>'n\<close> is the type of a parsed namelist, \<open>'k\<close>
  the ordered type of the values compared).
\<close>

record 'n turbine =
  t_input_nml :: 'n
  t_n :: nat
  t_sort_by :: string

definition Turbine :: "'n \<Rightarrow> nat \<Rightarrow> string \<Rightarrow> 'n turbine" where
  "Turbine turb_nml n sort_by = \<lparr>t_input_nml = turb_nml, t_n = n, t_sort_by = sort_by\<rparr>"

definition turbine_key :: "(string \<Rightarrow> 'n \<Rightarrow> 'k) \<Rightarrow> 'n turbine \<Rightarrow> 'k" where
  "turbine_key sort_value t = sort_value (t_sort_by t) (t_input_nml t)"

text \<open>
  The fields of a \<^verbatim>\<open>TurbineArray\<close>; \<open>convenience\<close> holds the actuator-disk entries
  that the constructor copies into the object when there is one turbine.
\<close>

record ('n, 'v) turbine_array =
  ta_sort_by :: string
  ADM_type :: int
  turb_dir :: string
  num_turbines :: nat
  array :: "'n list"
  turbines :: "'n turbine list"
  convenience :: "(string \<times> 'v) list"

text \<open>
  \<^verbatim>\<open>TurbineArray.sort(reverse=False)\<close> is \<^verbatim>\<open>self.turbines.sort()\<close>: Python's stable
  sort, through the comparison of the turbines.
\<close>

definition sort_turbines ::
  "(string \<Rightarrow> 'n \<Rightarrow> 'k::linorder) \<Rightarrow> ('n, 'v) turbine_array \<Rightarrow> ('n, 'v) turbine_array" where
  "sort_turbines sort_value ta = ta\<lparr>turbines := sort_key (turbine_key sort_value) (turbines ta)\<rparr>"

text \<open>
  The list of namelists the constructor works with: \<^verbatim>\<open>init_ls\<close> (\<^verbatim>\<open>None\<close> is the
  empty list), or, when a turbine directory is given and \<^verbatim>\<open>init_ls\<close> is empty, the
  namelists parsed from the files of that directory in the order of their names. A
  directory is given with what its files parse to.
\<close>

definition effective_init_ls :: "(string \<times> 'n list) option \<Rightarrow> 'n list option \<Rightarrow> 'n list" where
  "effective_init_ls dir init_ls =
     (let ls = (case init_ls of None \<Rightarrow> [] | Some l \<Rightarrow> l)
      in case dir of
           None \<Rightarrow> ls
         | Some (path, parsed) \<Rightarrow> if ls = [] then parsed else ls)"

text \<open>
  The loop \<^verbatim>\<open>for i, turb_nml in enumerate(init_ls)\<close>, which stops at the first
  \<open>i \<ge> num_turbines\<close>; \<open>i\<close> is the index of the head of the list.
\<close>

fun add_turbines :: "nat \<Rightarrow> string \<Rightarrow> nat \<Rightarrow> 'n list \<Rightarrow> 'n turbine list" where
  "add_turbines num sort_by i [] = []"
| "add_turbines num sort_by i (turb_nml # rest) =
     (if i \<ge> num then []
      else Turbine turb_nml (i + 1) sort_by # add_turbines num sort_by (i + 1) rest)"

text \<open>
  \<^verbatim>\<open>TurbineArray.__init__\<close> without \<^verbatim>\<open>init_dict\<close>. \<open>actuator_disk\<close> reads
  \<^verbatim>\<open>input_nml['actuator_disk']\<close>, \<open>None\<close> when the namelist has no such group. With
  \<^verbatim>\<open>num_turbines == 1\<close> the constructor reads \<^verbatim>\<open>self.turbines[0]\<close>, which raises
  IndexError when no turbine was built.
\<close>

definition TurbineArray_init ::
  "(string \<Rightarrow> 'n \<Rightarrow> 'k::linorder) \<Rightarrow> ('n \<Rightarrow> (string \<times> 'v) list option)
     \<Rightarrow> (string \<times> 'n list) option \<Rightarrow> nat option \<Rightarrow> 'n list option \<Rightarrow> int \<Rightarrow> string
     \<Rightarrow> py_error + ('n, 'v) turbine_array" where
  "TurbineArray_init sort_value actuator_disk dir num init_ls adm sort_by =
     (let ls = effective_init_ls dir init_ls;
          n = (case num of Some k \<Rightarrow> k | None \<Rightarrow> length ls);
          ts = add_turbines n sort_by 0 ls;
          ta = sort_turbines sort_value
                 \<lparr>ta_sort_by = sort_by, ADM_type = adm,
                  turb_dir = (case dir of None \<Rightarrow> [] | Some (path, parsed) \<Rightarrow> path),
                  num_turbines = n, array = map t_input_nml ts, turbines = ts, convenience = []\<rparr>
      in if n = 1
         then (case turbines ta of
                 [] \<Rightarrow> Inl IndexError
               | t # _ \<Rightarrow> (case actuator_disk (t_input_nml t) of
                              None \<Rightarrow> Inl KeyError
                            | Some kv \<Rightarrow> Inr (ta\<lparr>convenience := kv\<rparr>)))
         else Inr ta)"

section \<open>Example run directory\<close>

text \<open>
  The part of the key table the examples use (budget 0 holds the means, budget 5 the
  wakes derived from them), and a run directory with dumps of \<^verbatim>\<open>ubar\<close> and \<^verbatim>\<open>vbar\<close>
  at the time indices 5 and 9 on a 2 x 2 x 2 grid. Integers stand for the values.
\<close>

definition example_key :: key_table where
  "example_key = [(''ubar'', (0, 1)), (''vbar'', (0, 2)), (''wbar'', (0, 3)), (''pbar'', (0, 10)),
                  (''uwake'', (5, 1)), (''vwake'', (5, 2)), (''wwake'', (5, 3))]"

definition example_dump :: "nat \<Rightarrow> int \<Rightarrow> nat \<Rightarrow> int list \<Rightarrow> int budget_file" where
  "example_dump t tidx n xs =
     \<lparr>f_runid = 1, f_budget = 0, f_term = t, f_tidx = tidx, f_n = n, f_data = xs\<rparr>"

definition example_dir :: "int budget_file list" where
  "example_dir =
     [example_dump 1 5 10 [1, 2, 3, 4, 5, 6, 7, 8],
      example_dump 2 5 10 [11, 12, 13, 14, 15, 16, 17, 18],
      example_dump 1 9 20 [21, 22, 23, 24, 25, 26, 27, 28],
      example_dump 2 9 20 [31, 32, 33, 34, 35, 36, 37, 38]]"

definition example_session :: "int session" where
  "example_session =
     \<lparr>dir_name = ''run'', filename = ''run'',
      associate_padeops = True, associate_npz = False, associate_mat = False,
      associate_budgets = True, runid = 1, nx = 2, ny = 2, nz = 2,
      xLine = [0, 1], yLine = [0, 1], zLine = [1, 3], origin = (0, 0, 0), normalized_xyz = False,
      budget = [], budget_tidx = Some 9, budget_n = Some 20, all_budget_tidx = [5, 9],
      dir_files = example_dir, archive = [], reports = []\<rparr>"

text \<open>
  \<open>loaded_from key s t name arr\<close>: \<open>arr\<close> is what the raw backend builds for \<open>name\<close> at
  time index \<open>t\<close>, the Fortran-order reshape of the first matching dump.
\<close>

definition loaded_from :: "key_table \<Rightarrow> 'a session \<Rightarrow> int \<Rightarrow> string \<Rightarrow> 'a ndarray \<Rightarrow> bool" where
  "loaded_from key s t name arr \<longleftrightarrow>
     (\<exists>tup f. key_lookup key name = Inr tup \<and> glob_first s tup t = Inr f
        \<and> reshape_F (f_data f) [nx s, ny s, nz s] = Inr arr)"



text \<open>
  \<open>same_run s s'\<close>: the two sessions read the same run: directory, archive, grid
  counts, available time indices, backend flags and file names agree.
\<close>

definition same_run :: "'a session \<Rightarrow> 'a session \<Rightarrow> bool" where
  "same_run s s' \<longleftrightarrow>
     dir_files s' = dir_files s \<and> runid s' = runid s \<and> nx s' = nx s \<and> ny s' = ny s
     \<and> nz s' = nz s \<and> all_budget_tidx s' = all_budget_tidx s
     \<and> associate_padeops s' = associate_padeops s \<and> associate_npz s' = associate_npz s
     \<and> associate_mat s' = associate_mat s \<and> associate_budgets s' = associate_budgets s
     \<and> archive s' = archive s \<and> dir_name s' = dir_name s \<and> filename s' = filename s"












section \<open>Properties of the readers\<close>


lemma bind_err_Inr_iff: "bind_err m f = Inr y \<longleftrightarrow> (\<exists>x. m = Inr x \<and> f x = Inr y)"
  by (cases m) (auto simp: bind_err_def)

lemma load_term_frame:
  assumes "load_term key tidx s name = Inr s'"
  shows "dir_files s' = dir_files s \<and> runid s' = runid s \<and> nx s' = nx s \<and> ny s' = ny s
     \<and> nz s' = nz s \<and> all_budget_tidx s' = all_budget_tidx s \<and> reports s' = reports s
     \<and> associate_padeops s' = associate_padeops s"
  using assms
  by (auto simp: load_term_def bind_err_Inr_iff Let_def split: option.splits)

lemma glob_first_frame:
  "dir_files s' = dir_files s \<Longrightarrow> runid s' = runid s \<Longrightarrow> glob_first s' tup t = glob_first s tup t"
  by (simp add: glob_first_def)

lemma load_term_result:
  assumes "load_term key tidx s name = Inr s'"
  shows "\<exists>tup t f arr. key_lookup key name = Inr tup \<and> tidx = Some t \<and> glob_first s tup t = Inr f
     \<and> reshape_F (f_data f) [nx s, ny s, nz s] = Inr arr
     \<and> budget s' = AList.update name arr (budget s)
     \<and> budget_tidx s' = Some t \<and> budget_n s' = Some (f_n f)"
  using assms
  by (auto simp: load_term_def bind_err_Inr_iff Let_def split: option.splits)


lemma load_terms_result:
  "load_terms key tidx s names = Inr s' \<Longrightarrow>
   (\<forall>name. name \<notin> set names \<longrightarrow> map_of (budget s') name = map_of (budget s) name)
   \<and> (\<forall>name \<in> set names. \<exists>t arr. tidx = Some t \<and> map_of (budget s') name = Some arr \<and> loaded_from key s t name arr)"
proof (induction names arbitrary: s)
  case Nil then show ?case by simp
next
  case (Cons n ns)
  then obtain s1 where 1: "load_term key tidx s n = Inr s1" and 2: "load_terms key tidx s1 ns = Inr s'"
    by (auto simp: bind_err_Inr_iff)
  note fr = load_term_frame[OF 1]
  from load_term_result[OF 1] obtain tup t f arr where r: "key_lookup key n = Inr tup" "tidx = Some t"
     "glob_first s tup t = Inr f" "reshape_F (f_data f) [nx s, ny s, nz s] = Inr arr"
     "budget s1 = AList.update n arr (budget s)" by blast
  have lf: "loaded_from key s1 t' nm a = loaded_from key s t' nm a" for t' nm a
    using fr by (simp add: loaded_from_def glob_first_def)
  note IH = Cons.IH[OF 2]
  show ?case
  proof (intro conjI allI ballI impI)
    fix name assume "name \<notin> set (n # ns)"
    then have "map_of (budget s') name = map_of (budget s1) name" "name \<noteq> n" using IH by auto
    then show "map_of (budget s') name = map_of (budget s) name"
      using r(5) by (simp add: update_conv')
  next
    fix name assume "name \<in> set (n # ns)"
    show "\<exists>t arr. tidx = Some t \<and> map_of (budget s') name = Some arr \<and> loaded_from key s t name arr"
    proof (cases "name \<in> set ns")
      case True then show ?thesis using IH lf by auto
    next
      case False
      then have "name = n" using \<open>name \<in> set (n # ns)\<close> by simp
      moreover have "map_of (budget s') n = map_of (budget s1) n" using IH False \<open>name = n\<close> by blast
      ultimately show ?thesis using r by (auto simp: update_conv' loaded_from_def)
    qed
  qed
qed




lemma index3_bound:
  fixes a b c :: nat
  assumes "i < a" "j < b" "k < c"
  shows "i + a * j + a * b * k < a * b * c"
proof -
  have "i + a * j < a * Suc j" using assms(1) by simp
  also have "\<dots> \<le> a * b" using assms(2) by (intro mult_le_mono2) simp
  finally have "i + a * j + a * b * k < a * b * Suc k" by simp
  also have "\<dots> \<le> a * b * c" using assms(3) by (intro mult_le_mono2) simp
  finally show ?thesis .
qed

lemma reshape_getitem3:
  assumes "reshape_F xs [a, b, c] = Inr arr" "i < a" "j < b" "k < c"
  shows "length xs = a * b * c \<and> shape arr = [a, b, c]
     \<and> getitem arr [i, j, k] = Inr (xs ! (i + a * j + a * b * k))"
  using assms
  by (auto simp: reshape_F_def getitem_def ac_simps split: if_splits)

text \<open>
  Claim C1. Every budget term the raw backend loads is cached as the column-major
  (Fortran-order) reshape of its dump: the dump holds nx * ny * nz values, and for
  all i < nx, j < ny, k < nz the cached array's element [i, j, k] is the dump's
  element at flat index i + nx * j + nx * ny * k, the dump being the first file of
  the directory that matches the term's key at the time index loaded.
\<close>

theorem raw_load_fortran_order:
  assumes "read_budgets_padeops key s key_subset tidx = Inr s'"
    and "name \<in> fst ` set key_subset"
    and "i < nx s" and "j < ny s" and "k < nz s"
  shows "\<exists>tup t s1 f arr. key_lookup key name = Inr tup \<and> resolve_tidx s tidx = Inr (Some t, s1)
     \<and> glob_first s tup t = Inr f
     \<and> length (f_data f) = nx s * ny s * nz s
     \<and> i + nx s * j + nx s * ny s * k < length (f_data f)
     \<and> map_of (budget s') name = Some arr \<and> shape arr = [nx s, ny s, nz s]
     \<and> getitem arr [i, j, k] = Inr (f_data f ! (i + nx s * j + nx s * ny s * k))"
proof -
  from assms(1) obtain t s1 where 1: "resolve_tidx s tidx = Inr (t, s1)"
    and 2: "load_terms key t s1 (map fst key_subset) = Inr s'"
    by (auto simp: read_budgets_padeops_def bind_err_Inr_iff)
  have fr: "dir_files s1 = dir_files s" "runid s1 = runid s" "nx s1 = nx s" "ny s1 = ny s" "nz s1 = nz s"
    using 1 by (auto simp: resolve_tidx_def bind_err_Inr_iff split: option.splits if_splits)
  from load_terms_result[OF 2] assms(2) obtain t' arr where
    3: "map_of (budget s') name = Some arr" "loaded_from key s1 t' name arr" and "t = Some t'" by auto
  then obtain tup f where 4: "key_lookup key name = Inr tup" "glob_first s tup t' = Inr f"
     "reshape_F (f_data f) [nx s, ny s, nz s] = Inr arr"
    using fr by (auto simp: loaded_from_def glob_first_def)
  from reshape_getitem3[OF 4(3) assms(3-5)] index3_bound[OF assms(3-5)] 3(1) 4(1,2)
    1 \<open>t = Some t'\<close>
  show ?thesis by (intro exI[of _ tup] exI[of _ t'] exI[of _ s1] exI[of _ f] exI[of _ arr]) simp
qed


text \<open>
  On the example directory, loading \<^verbatim>\<open>ubar\<close> at time index 5 caches the 2 x 2 x 2
  array whose element [1, 0, 1] is the sixth value of the dump.
\<close>

theorem raw_load_fortran_order_witness:
  "read_budgets_padeops example_key example_session [(''ubar'', (0, 1))] (Some 5) =
     Inr (example_session\<lparr>budget_tidx := Some 5, budget_n := Some 10,
       budget := [(''ubar'', \<lparr>shape = [2, 2, 2], strides = [1, 2, 4], buffer = [1, 2, 3, 4, 5, 6, 7, 8]\<rparr>)]\<rparr>)
   \<and> getitem \<lparr>shape = [2, 2, 2], strides = [1, 2, 4], buffer = [1, 2, 3, 4, 5, 6, 7, 8::int]\<rparr> [1, 0, 1]
       = Inr ([1, 2, 3, 4, 5, 6, 7, 8] ! (1 + 2 * 0 + 2 * 2 * 1))"
proof -
  have r: "read_budgets_padeops example_key example_session [(''ubar'', (0, 1))] (Some 5) =
     Inr (example_session\<lparr>budget_tidx := Some 5, budget_n := Some 10,
       budget := [(''ubar'', \<lparr>shape = [2, 2, 2], strides = [1, 2, 4], buffer = [1, 2, 3, 4, 5, 6, 7, 8]\<rparr>)]\<rparr>)"
    by code_simp
  have g: "glob_first example_session (0, Suc 0) 5 = Inr (example_dump 1 5 10 [1, 2, 3, 4, 5, 6, 7, 8])"
    by (simp add: glob_first_def example_session_def example_dir_def example_dump_def)
  have k: "key_lookup example_key ''ubar'' = Inr (0, 1)"
    by (simp add: key_lookup_def example_key_def)
  have t: "resolve_tidx example_session (Some 5) = Inr (Some 5, example_session)"
    by (simp add: resolve_tidx_def example_session_def)
  have d: "nx example_session = 2" "ny example_session = 2" "nz example_session = 2"
    by (simp_all add: example_session_def)
  from raw_load_fortran_order[OF r, of "''ubar''" 1 0 1]
  show ?thesis
    using r by (auto simp: g k t d example_dump_def)
qed


lemma distinct_remdups_adj_sorted:
  "sorted xs \<Longrightarrow> distinct (remdups_adj (xs :: 'b::linorder list))"
  by (induction xs rule: remdups_adj.induct) (auto simp: order.strict_iff_order)

lemma np_unique_props: "sorted (np_unique xs) \<and> distinct (np_unique xs) \<and> set (np_unique xs) = set xs"
  by (simp add: np_unique_def distinct_remdups_adj_sorted)

text \<open>
  Claim C9. \<^verbatim>\<open>existing_budgets\<close> returns the distinct budget ids found for the
  active backend in ascending order, with budget 5 added whenever budget 0 is among
  them; for solver output the ids found are those of the dumps of the active run, and
  when there are such dumps and all of them belong to budget 0 the result is [0, 5].
\<close>

theorem existing_budgets_sorted_distinct:
  assumes "existing_budgets key s = Inr bs"
  shows "\<exists>bl. budget_list key s = Inr bl \<and> sorted bs \<and> distinct bs
     \<and> set bs = set bl \<union> (if 0 \<in> set bl then {5} else {})
     \<and> (associate_padeops s \<longrightarrow>
          bl = map f_budget (filter (\<lambda>f. f_runid f = runid s) (dir_files s)))
     \<and> (bl \<noteq> [] \<and> (\<forall>b \<in> set bl. b = 0) \<longrightarrow> bs = [0, 5])"
proof -
  from assms obtain bl where bl: "budget_list key s = Inr bl"
    and bs: "bs = np_unique (if 0 \<in> set bl then bl @ [5] else bl)"
    by (auto simp: existing_budgets_def bind_err_Inr_iff)
  have p: "sorted bs" "distinct bs" "set bs = set bl \<union> (if 0 \<in> set bl then {5} else {})"
    using np_unique_props bs by auto
  have "bs = [0, 5]" if "bl \<noteq> []" "\<forall>b \<in> set bl. b = 0"
  proof -
    have "set bl = {0}" using that by (cases bl) auto
    then have "set bs = set [0, 5::nat]" using p(3) by auto
    then show ?thesis using p(1,2) by (intro sorted_distinct_set_unique) auto
  qed
  moreover have "associate_padeops s \<longrightarrow>
      bl = map f_budget (filter (\<lambda>f. f_runid f = runid s) (dir_files s))"
    using bl by (auto simp: budget_list_def)
  ultimately show ?thesis using bl p by blast
qed

text \<open>The example directory holds only budget-0 dumps.\<close>

theorem existing_budgets_sorted_distinct_witness:
  "existing_budgets example_key example_session = Inr [0, 5]
   \<and> budget_list example_key example_session = Inr [0, 0, 0, 0]"
proof -
  have e: "existing_budgets example_key example_session = Inr [0, 5]" by code_simp
  have b: "budget_list example_key example_session = Inr [0, 0, 0, 0]" by code_simp
  from existing_budgets_sorted_distinct[OF e] b e show ?thesis by simp
qed









lemma req_names_Name [simp]: "req_names (map Name ns) = ns"
  by (induction ns) (auto simp: req_names_def)

lemma req_tups_Name [simp]: "req_tups (map Name ns) = []"
  by (induction ns) (auto simp: req_tups_def)



















lemma same_run_refl [simp]: "same_run s s"
  by (simp add: same_run_def)






















lemma same_run_reports [simp]: "same_run s (s1\<lparr>reports := r\<rparr>) = same_run s s1"
  by (simp add: same_run_def)















lemma length_add_turbines:
  "length (add_turbines num sb i ls) = min (num - i) (length ls)"
  by (induction ls arbitrary: i) auto

lemma nml_add_turbines:
  "map t_input_nml (add_turbines num sb i ls) = take (num - i) ls"
proof (induction ls arbitrary: i)
  case Nil then show ?case by simp
next
  case (Cons x xs)
  show ?case
  proof (cases "i \<ge> num")
    case True then show ?thesis by simp
  next
    case False
    then have "num - i = Suc (num - (i + 1))" by simp
    then show ?thesis using False Cons.IH[of "i + 1"] by (simp add: Turbine_def)
  qed
qed

lemma sort_by_add_turbines:
  "t \<in> set (add_turbines num sb i ls) \<Longrightarrow> t_sort_by t = sb"
  by (induction ls arbitrary: i) (auto simp: Turbine_def split: if_splits)

text \<open>
  Claim C10. A \<^verbatim>\<open>TurbineArray\<close> built from a list of m namelists holds min(k, m)
  turbines when \<^verbatim>\<open>num_turbines=k\<close> is given and m turbines when it is not, made from
  the first namelists of the list, and its \<^verbatim>\<open>turbines\<close> are in ascending order of the
  value of the sort key when the constructor returns.
\<close>

theorem turbine_array_length_sorted:
  assumes "TurbineArray_init sort_value actuator_disk dir num init_ls adm sort_by = Inr ta"
  shows "length (turbines ta) =
           (case num of Some k \<Rightarrow> min k (length (effective_init_ls dir init_ls))
                      | None \<Rightarrow> length (effective_init_ls dir init_ls))
     \<and> sorted (map (\<lambda>t. sort_value sort_by (t_input_nml t)) (turbines ta))
     \<and> set (map t_input_nml (turbines ta)) =
         set (take (case num of Some k \<Rightarrow> k | None \<Rightarrow> length (effective_init_ls dir init_ls))
                (effective_init_ls dir init_ls))"
proof -
  let ?ls = "effective_init_ls dir init_ls"
  let ?n = "case num of Some k \<Rightarrow> k | None \<Rightarrow> length ?ls"
  let ?ts = "add_turbines ?n sort_by 0 ?ls"
  have t: "turbines ta = sort_key (turbine_key sort_value) ?ts"
    using assms
    by (auto simp: TurbineArray_init_def Let_def sort_turbines_def
        split: if_splits list.splits option.splits)
  have len: "length (turbines ta) = (case num of Some k \<Rightarrow> min k (length ?ls) | None \<Rightarrow> length ?ls)"
    unfolding t by (simp add: length_add_turbines split: option.splits)
  have sb: "\<forall>x \<in> set (turbines ta). t_sort_by x = sort_by"
    unfolding t using sort_by_add_turbines by auto
  have "sorted (map (turbine_key sort_value) (turbines ta))"
    unfolding t by simp
  moreover have "map (turbine_key sort_value) (turbines ta) =
      map (\<lambda>t. sort_value sort_by (t_input_nml t)) (turbines ta)"
    using sb by (simp add: turbine_key_def)
  ultimately have srt: "sorted (map (\<lambda>t. sort_value sort_by (t_input_nml t)) (turbines ta))"
    by simp
  have "set (map t_input_nml (turbines ta)) = set (map t_input_nml ?ts)"
    unfolding t by simp
  then have st: "set (map t_input_nml (turbines ta)) = set (take ?n ?ls)"
    by (simp add: nml_add_turbines)
  from len srt st show ?thesis by simp
qed


text \<open>
  Three namelists with x locations 30, 10, 20 and \<^verbatim>\<open>num_turbines=2\<close>: the turbines of
  the first two, sorted by location.
\<close>

theorem turbine_array_length_sorted_witness:
  "TurbineArray_init (\<lambda>_ x. x) (\<lambda>_. Some []) None (Some 2) (Some [30, 10, 20::int]) 5 ''xloc'' =
     Inr (\<lparr>ta_sort_by = ''xloc'', ADM_type = 5, turb_dir = [], num_turbines = 2,
          array = [30, 10],
          turbines = [Turbine 10 2 ''xloc'', Turbine 30 1 ''xloc''],
          convenience = []\<rparr> :: (int, nat) turbine_array)
   \<and> length [Turbine (10::int) 2 ''xloc'', Turbine 30 1 ''xloc''] = min 2 (length [30, 10, 20::int])
   \<and> sorted (map (\<lambda>t. t_input_nml t) [Turbine (10::int) 2 ''xloc'', Turbine 30 1 ''xloc''])"
proof -
  have c: "TurbineArray_init (\<lambda>_ x. x) (\<lambda>_. Some []) None (Some 2) (Some [30, 10, 20::int]) 5 ''xloc'' =
     Inr (\<lparr>ta_sort_by = ''xloc'', ADM_type = 5, turb_dir = [], num_turbines = 2,
          array = [30, 10],
          turbines = [Turbine 10 2 ''xloc'', Turbine 30 1 ''xloc''],
          convenience = []\<rparr> :: (int, nat) turbine_array)"
    by (simp add: TurbineArray_init_def effective_init_ls_def sort_turbines_def turbine_key_def
        Turbine_def Let_def numeral_2_eq_2)
  have e: "effective_init_ls None (Some [30, 10, 20::int]) = [30, 10, 20]"
    by (simp add: effective_init_ls_def)
  from turbine_array_length_sorted[OF c] c show ?thesis by (simp add: e)
qed


section \<open>Properties of the archive writers\<close>














end
